theory Spec2Isabelle
  imports Main
begin

section \<open>Go values used by server.go\<close>

text \<open>
  A Go \<^verbatim>\<open>error\<close> value is represented by the text its \<^verbatim>\<open>Error()\<close> method returns,
  which is also what \<^verbatim>\<open>%s\<close> prints. A call either returns normally, returns an error,
  or panics; the last two are the two constructors of \<open>failure\<close>.
\<close>

type_synonym error = string

datatype failure = Err error | Panic string

text \<open>
  \<^verbatim>\<open>exitChan chan struct{}\<close>. Nothing in server.go ever sends on the channel, so
  its buffer is always empty and the only states are: the nil channel of a zero-valued
  \<^verbatim>\<open>Server\<close>, the open channel made by \<^verbatim>\<open>NewServer\<close>, and the closed channel.
\<close>

datatype chan = ChanNil | ChanOpen | ChanClosed

text \<open>
  \<^verbatim>\<open>case <-ch: ... default: ...\<close>: the receive case is taken exactly when a receive
  would not block. A receive on a closed channel returns at once; on an open empty
  channel and on the nil channel it blocks, so \<^verbatim>\<open>default\<close> runs.
\<close>

fun recv_ready :: "chan \<Rightarrow> bool" where
  "recv_ready ChanClosed = True"
| "recv_ready ChanOpen = False"
| "recv_ready ChanNil = False"

text \<open>The builtin \<^verbatim>\<open>close(ch)\<close>: it panics on a nil and on a closed channel.\<close>

fun close_chan :: "chan \<Rightarrow> failure + chan" where
  "close_chan ChanOpen = Inr ChanClosed"
| "close_chan ChanClosed = Inl (Panic ''close of closed channel'')"
| "close_chan ChanNil = Inl (Panic ''close of nil channel'')"

text \<open>\<^verbatim>\<open>%d\<close> of \<^verbatim>\<open>fmt.Sprintf\<close>: the decimal digits, with a minus sign when negative.\<close>

fun digits10 :: "nat \<Rightarrow> string" where
  "digits10 n =
     (if n < 10 then [''0123456789'' ! n]
      else digits10 (n div 10) @ [''0123456789'' ! (n mod 10)])"

declare digits10.simps [simp del]

definition fmt_d :: "int \<Rightarrow> string" where
  "fmt_d i = (if i < 0 then CHR ''-'' # digits10 (nat (- i)) else digits10 (nat i))"

section \<open>The data of the server\<close>

text \<open>
  \<^verbatim>\<open>type Server struct\<close>. \<open>'f\<close> is the type \<^verbatim>\<open>HandlerFn\<close>, declared outside
  server.go. A monitor channel is represented by its identity.
\<close>

record 'f Server =
  Proto :: string
  Addr :: string
  MonitorChans :: "nat list"
  methods :: "string \<rightharpoonup> 'f"
  exitChan :: chan

text \<open>
  \<^verbatim>\<open>reflect.Method\<close>, with the two fields that \<^verbatim>\<open>NewServer\<close> reads. A handler object
  is seen by \<^verbatim>\<open>NewServer\<close> only through \<^verbatim>\<open>reflect.TypeOf(c.handler)\<close>, that is through
  \<^verbatim>\<open>NumMethod()\<close> and \<^verbatim>\<open>Method(i)\<close>: it is represented by the list of these methods.
\<close>

record 'm Method =
  Name :: string
  Func :: 'm

type_synonym 'm Handler = "'m Method list"

text \<open>
  \<^verbatim>\<open>Config\<close>, declared outside server.go, with the four fields that \<^verbatim>\<open>NewServer\<close>
  reads; a nil \<^verbatim>\<open>handler\<close> is \<open>None\<close>.
\<close>

record 'm Config =
  proto :: string
  host :: string
  port :: int
  handler :: "'m Handler option"

text \<open>
  Modelled from the spec: \<^verbatim>\<open>NewDefaultHandler\<close> is declared outside server.go. The
  specification calls its result "a default no-op handler with an empty command set":
  a handler with no operation.
\<close>

definition NewDefaultHandler :: "'m Handler" where
  "NewDefaultHandler = []"

section \<open>NewServer\<close>

text \<open>
  The test \<^verbatim>\<open>method.Name[0] > 'a' && method.Name[0] < 'z'\<close> on the first byte of the
  name. Indexing an empty string panics.
\<close>

definition skipped :: "string \<Rightarrow> failure + bool" where
  "skipped name =
     (case name of
        [] \<Rightarrow> Inl (Panic ''index out of range [0] with length 0'')
      | c # _ \<Rightarrow> Inr ((of_char c :: nat) > of_char CHR ''a'' \<and> (of_char c :: nat) < of_char CHR ''z''))"

text \<open>
  The loop \<^verbatim>\<open>for i := 0; i < rh.NumMethod(); i++\<close> over the methods that are left.
  \<^verbatim>\<open>createHandlerFn\<close> and \<^verbatim>\<open>Register\<close> are methods of \<^verbatim>\<open>Server\<close> declared
  outside server.go: they are parameters. \<^verbatim>\<open>createHandlerFn\<close> gets the handler and
  the method's \<^verbatim>\<open>Func\<close>, and returns a \<^verbatim>\<open>HandlerFn\<close> or an error.
\<close>

fun register_methods ::
  "('m Handler \<Rightarrow> 'm \<Rightarrow> error + 'f) \<Rightarrow> ('f Server \<Rightarrow> string \<Rightarrow> 'f \<Rightarrow> 'f Server) \<Rightarrow>
   'm Handler \<Rightarrow> 'm Method list \<Rightarrow> 'f Server \<Rightarrow> failure + 'f Server" where
  "register_methods createHandlerFn Register h [] srv = Inr srv"
| "register_methods createHandlerFn Register h (method # rest) srv =
     (case skipped (Name method) of
        Inl p \<Rightarrow> Inl p
      | Inr True \<Rightarrow> register_methods createHandlerFn Register h rest srv
      | Inr False \<Rightarrow>
          (case createHandlerFn h (Func method) of
             Inl err \<Rightarrow> Inl (Err err)
           | Inr handlerFn \<Rightarrow>
               register_methods createHandlerFn Register h rest
                 (Register srv (Name method) handlerFn)))"

text \<open>
  \<^verbatim>\<open>NewServer(c *Config) (*Server, error)\<close>. The configuration is passed by pointer
  and its \<^verbatim>\<open>handler\<close> field is assigned, so the configuration is returned too.
  \<open>Inl\<close> is the return \<^verbatim>\<open>nil, err\<close> (or a panic), \<open>Inr srv\<close> the return
  \<^verbatim>\<open>srv, nil\<close>.
\<close>

definition NewServer ::
  "('m Handler \<Rightarrow> 'm \<Rightarrow> error + 'f) \<Rightarrow> ('f Server \<Rightarrow> string \<Rightarrow> 'f \<Rightarrow> 'f Server) \<Rightarrow>
   'm Config \<Rightarrow> (failure + 'f Server) \<times> 'm Config" where
  "NewServer createHandlerFn Register c =
     (let srv = \<lparr>Proto = proto c, Addr = [], MonitorChans = [], methods = Map.empty,
                 exitChan = ChanNil\<rparr>;
          srv = (if Proto srv = ''unix'' then srv\<lparr>Addr := host c\<rparr>
                 else srv\<lparr>Addr := host c @ '':'' @ fmt_d (port c)\<rparr>);
          (rh, c) = (case handler c of
                       None \<Rightarrow> (NewDefaultHandler, c\<lparr>handler := Some NewDefaultHandler\<rparr>)
                     | Some h \<Rightarrow> (h, c))
      in (case register_methods createHandlerFn Register rh rh srv of
            Inl e \<Rightarrow> (Inl e, c)
          | Inr srv \<Rightarrow> (Inr (srv\<lparr>exitChan := ChanOpen\<rparr>), c)))"

text \<open>
  The specification's reading of the loop, for comparison: every operation of the
  handler is a command, and an adapter is attempted for each in turn (the first failure
  ends the construction).
\<close>

fun attempt_all ::
  "('m Handler \<Rightarrow> 'm \<Rightarrow> error + 'f) \<Rightarrow> ('f Server \<Rightarrow> string \<Rightarrow> 'f \<Rightarrow> 'f Server) \<Rightarrow>
   'm Handler \<Rightarrow> 'm Method list \<Rightarrow> 'f Server \<Rightarrow> failure + 'f Server" where
  "attempt_all createHandlerFn Register h [] srv = Inr srv"
| "attempt_all createHandlerFn Register h (method # rest) srv =
     (case createHandlerFn h (Func method) of
        Inl err \<Rightarrow> Inl (Err err)
      | Inr handlerFn \<Rightarrow>
          attempt_all createHandlerFn Register h rest (Register srv (Name method) handlerFn))"

text \<open>
  An exported Go identifier starts with a Unicode upper-case letter. The first byte of
  its UTF-8 encoding is then one of \<^verbatim>\<open>'A'\<close> to \<^verbatim>\<open>'Z'\<close>, or the lead byte of a
  sequence of several bytes, which for the letters from U+00C0 on is at least 0xC3.
  \<^verbatim>\<open>reflect.Type.Method\<close> lists exported methods only.
\<close>

definition exported :: "string \<Rightarrow> bool" where
  "exported name =
     (case name of
        [] \<Rightarrow> False
      | c # _ \<Rightarrow> ((65::nat) \<le> of_char c \<and> (of_char c :: nat) \<le> 90) \<or> (195::nat) \<le> of_char c)"



section \<open>Shutdown\<close>

text \<open>
  \<^verbatim>\<open>func (srv *Server) Shutdown()\<close>: \<^verbatim>\<open>close(srv.exitChan)\<close>. A panic of
  \<^verbatim>\<open>close\<close> is not recovered anywhere in server.go.
\<close>

definition Shutdown :: "'f Server \<Rightarrow> failure + 'f Server" where
  "Shutdown srv =
     (case close_chan (exitChan srv) of
        Inl p \<Rightarrow> Inl p
      | Inr ch \<Rightarrow> Inr (srv\<lparr>exitChan := ch\<rparr>))"

section \<open>Sessions\<close>

text \<open>
  \<^verbatim>\<open>Request\<close> is declared outside server.go, which assigns its \<^verbatim>\<open>Host\<close> field. A
  reply (a \<^verbatim>\<open>ReplyWriter\<close>) is represented by the bytes its \<^verbatim>\<open>WriteTo\<close> writes.
\<close>

record Request =
  Command :: string
  Args :: "string list"
  Host :: string

type_synonym Reply = string

text \<open>
  What the type switch of \<^verbatim>\<open>ServeClient\<close> distinguishes: a \<^verbatim>\<open>*net.UnixConn\<close>, with
  the result that its \<^verbatim>\<open>File()\<close> will have (an error, or a file with this \<^verbatim>\<open>Name()\<close>),
  and any other connection, with \<^verbatim>\<open>RemoteAddr().String()\<close>.
\<close>

datatype conn_type = UnixConn "error + string" | OtherConn string

text \<open>
  What happens on a connection, in order: a call of \<^verbatim>\<open>parseRequest(conn)\<close> and what it
  returned, a call of \<^verbatim>\<open>reply.WriteTo(conn)\<close> and its error, a call of
  \<^verbatim>\<open>fmt.Fprintf(conn, ...)\<close> with the text and its error, and \<^verbatim>\<open>conn.Close()\<close>.
\<close>

datatype event =
  Parse "error + Request"
| WriteTo Reply "error option"
| Fprintf string "error option"
| Close

text \<open>
  A connection. \<open>closed\<close> says that \<^verbatim>\<open>conn.Close()\<close> has been called, which closes
  the connection's own descriptor. \<open>files\<close> counts the open files that
  \<^verbatim>\<open>conn.File()\<close> has returned: each is a duplicate of the descriptor, on the same
  socket, that \<^verbatim>\<open>conn.Close()\<close> does not close.
\<close>

record Conn =
  ctype :: conn_type
  trace :: "event list"
  closed :: bool
  files :: nat

text \<open>
  The socket is closed towards the peer when no descriptor of it is left open: the
  connection's own is closed and no duplicate is open.
\<close>

definition connection_closed :: "Conn \<Rightarrow> bool" where
  "connection_closed conn = (closed conn \<and> files conn = 0)"

definition log_event :: "event \<Rightarrow> Conn \<Rightarrow> Conn" where
  "log_event e conn = conn\<lparr>trace := trace conn @ [e]\<rparr>"

text \<open>
  A call that returns, with the value of the result parameter \<^verbatim>\<open>err\<close>
  (\<open>None\<close> is nil), or a call that has not returned: it is still in its loop when the
  observed part of the run ends.
\<close>

datatype outcome = Returned "error option" | Running

text \<open>
  One iteration of the session's loop as its environment decides it: the state in which
  the \<^verbatim>\<open>select\<close> finds \<^verbatim>\<open>srv.exitChan\<close> (the channel is shared with the caller of
  \<^verbatim>\<open>Shutdown\<close>), what \<^verbatim>\<open>parseRequest(conn)\<close> returns, and the error of
  \<^verbatim>\<open>reply.WriteTo(conn)\<close>.
\<close>

record round =
  exit_seen :: chan
  parsed :: "error + Request"
  write_err :: "error option"

text \<open>
  The \<^verbatim>\<open>for\<close> loop of \<^verbatim>\<open>ServeClient\<close>. \<^verbatim>\<open>Apply\<close> stands for \<^verbatim>\<open>srv.Apply\<close>, declared
  outside server.go; \<open>'h\<close> is the state of the handler that it may change.
  \<^verbatim>\<open>Apply\<close> is taken to return a reply whenever it returns no error.
\<close>

fun serve_loop ::
  "('h \<Rightarrow> Request \<Rightarrow> (error + Reply) \<times> 'h) \<Rightarrow> string \<Rightarrow> round list \<Rightarrow> 'h \<times> Conn \<Rightarrow>
   outcome \<times> 'h \<times> Conn" where
  "serve_loop Apply clientAddr [] (h, conn) = (Running, h, conn)"
| "serve_loop Apply clientAddr (r # rs) (h, conn) =
     (if recv_ready (exit_seen r) then (Returned None, h, conn)
      else
        (case parsed r of
           Inl err \<Rightarrow> (Returned (Some err), h, log_event (Parse (Inl err)) conn)
         | Inr request \<Rightarrow>
             (let conn = log_event (Parse (Inr request)) conn;
                  request = request\<lparr>Host := clientAddr\<rparr>;
                  (res, h) = Apply h request
              in (case res of
                    Inl err \<Rightarrow> (Returned (Some err), h, conn)
                  | Inr reply \<Rightarrow>
                      (let conn = log_event (WriteTo reply (write_err r)) conn
                       in (case write_err r of
                             Some err \<Rightarrow> (Returned (Some err), h, conn)
                           | None \<Rightarrow> serve_loop Apply clientAddr rs (h, conn)))))))"

text \<open>
  The type switch that computes \<^verbatim>\<open>clientAddr\<close>; \<open>Inl\<close> is its \<^verbatim>\<open>return err\<close>. On a
  \<^verbatim>\<open>*net.UnixConn\<close> it calls \<^verbatim>\<open>File()\<close>. When that succeeds, the file \<^verbatim>\<open>f\<close> is one
  more open duplicate of the connection's descriptor; the code reads \<^verbatim>\<open>f.Name()\<close> and
  never closes \<^verbatim>\<open>f\<close>.
\<close>

definition client_addr :: "Conn \<Rightarrow> (error + string) \<times> Conn" where
  "client_addr conn =
     (case ctype conn of
        UnixConn (Inl err) \<Rightarrow> (Inl err, conn)
      | UnixConn (Inr name) \<Rightarrow> (Inr name, conn\<lparr>files := Suc (files conn)\<rparr>)
      | OtherConn addr \<Rightarrow> (Inr addr, conn))"

text \<open>
  The deferred function of \<^verbatim>\<open>ServeClient\<close>, run with the result parameter \<^verbatim>\<open>err\<close>:
  \<^verbatim>\<open>fmt.Fprintf(conn, "-%s\n", err)\<close> when it is not nil, then \<^verbatim>\<open>conn.Close()\<close>.
  \<open>fe\<close> is the error of that \<^verbatim>\<open>Fprintf\<close>, which the code ignores. The channel
  \<^verbatim>\<open>clientChan\<close> is local, made open and closed once here: it has no effect.
\<close>

definition deferred :: "error option \<Rightarrow> error option \<Rightarrow> Conn \<Rightarrow> Conn" where
  "deferred err fe conn =
     (let conn = (case err of
                    None \<Rightarrow> conn
                  | Some e \<Rightarrow> log_event (Fprintf (CHR ''-'' # e @ [CHR 0x0A]) fe) conn)
      in (log_event Close conn)\<lparr>closed := True\<rparr>)"

text \<open>\<^verbatim>\<open>func (srv *Server) ServeClient(conn net.Conn) (err error)\<close>.\<close>

definition ServeClient ::
  "('h \<Rightarrow> Request \<Rightarrow> (error + Reply) \<times> 'h) \<Rightarrow> round list \<Rightarrow> error option \<Rightarrow> 'h \<times> Conn \<Rightarrow>
   outcome \<times> 'h \<times> Conn" where
  "ServeClient Apply rounds fe st =
     (case (case client_addr (snd st) of
              (Inl err, conn) \<Rightarrow> (Returned (Some err), fst st, conn)
            | (Inr clientAddr, conn) \<Rightarrow> serve_loop Apply clientAddr rounds (fst st, conn)) of
        (Running, h, conn) \<Rightarrow> (Running, h, conn)
      | (Returned err, h, conn) \<Rightarrow> (Returned err, h, deferred err fe conn))"

text \<open>
  Modelled from the spec: \<^verbatim>\<open>srv.Apply\<close> and the type \<^verbatim>\<open>HandlerFn\<close> of the entries of
  \<^verbatim>\<open>srv.methods\<close> are declared outside server.go. The specification of the session
  says: the request's command name is looked up in the command table; if it is found,
  the dispatch adapter is invoked with the request, and returns a reply or an error; if
  it is not found, the result is the "unknown command" reply; on a dispatch error an
  encoded error reply is produced. The encoder of replies is outside the core, so the
  encoding of an error and the "unknown command" reply are parameters.
\<close>

type_synonym 'h HandlerFn = "'h \<Rightarrow> Request \<Rightarrow> (error + Reply) \<times> 'h"

definition srv_Apply ::
  "(error \<Rightarrow> Reply) \<Rightarrow> Reply \<Rightarrow> 'h HandlerFn Server \<Rightarrow> 'h \<Rightarrow> Request \<Rightarrow> (error + Reply) \<times> 'h" where
  "srv_Apply error_reply unknown_command srv h request =
     (case methods srv (Command request) of
        None \<Rightarrow> (Inr unknown_command, h)
      | Some handlerFn \<Rightarrow>
          (case handlerFn h request of
             (Inl err, h') \<Rightarrow> (Inr (error_reply err), h')
           | (Inr reply, h') \<Rightarrow> (Inr reply, h')))"

section \<open>The acceptor\<close>

text \<open>
  A listener as \<^verbatim>\<open>net.Listen(network, address)\<close> returns it. One iteration of the
  loop of \<^verbatim>\<open>Serve\<close> as its environment decides it: the state in which the
  \<^verbatim>\<open>select\<close> finds \<^verbatim>\<open>srv.exitChan\<close>, and what \<^verbatim>\<open>l.Accept()\<close> returns.
\<close>

record Listener =
  network :: string
  laddr :: string
  l_closed :: bool

record accept_round =
  exit_found :: chan
  accepted :: "error + Conn"

text \<open>
  The \<^verbatim>\<open>for\<close> loop of \<^verbatim>\<open>Serve\<close>. \<^verbatim>\<open>go srv.ServeClient(rw)\<close> starts a session that
  runs on its own: the connections given to sessions are collected in order.
\<close>

fun accept_loop :: "accept_round list \<Rightarrow> Conn list \<Rightarrow> outcome \<times> Conn list" where
  "accept_loop [] spawned = (Running, spawned)"
| "accept_loop (r # rs) spawned =
     (if recv_ready (exit_found r) then (Returned None, spawned)
      else
        (case accepted r of
           Inl err \<Rightarrow> (Returned (Some err), spawned)
         | Inr rw \<Rightarrow> accept_loop rs (spawned @ [rw])))"

text \<open>
  \<^verbatim>\<open>func (srv *Server) Serve(l net.Listener) error\<close>: the result, the server, the
  listener (closed by the deferred \<^verbatim>\<open>l.Close()\<close> when \<^verbatim>\<open>Serve\<close> returns) and the
  connections given to sessions.
\<close>

definition Serve ::
  "'f Server \<Rightarrow> Listener \<Rightarrow> accept_round list \<Rightarrow> outcome \<times> 'f Server \<times> Listener \<times> Conn list" where
  "Serve srv l rounds =
     (let srv = srv\<lparr>MonitorChans := []\<rparr>
      in (case accept_loop rounds [] of
            (Running, spawned) \<Rightarrow> (Running, srv, l, spawned)
          | (Returned err, spawned) \<Rightarrow> (Returned err, srv, l\<lparr>l_closed := True\<rparr>, spawned)))"

text \<open>
  \<^verbatim>\<open>net.Listen\<close>: \<open>bind_err\<close> is the error, if any, with which the system refuses the
  network and address.
\<close>

definition net_Listen :: "(string \<Rightarrow> string \<Rightarrow> error option) \<Rightarrow> string \<Rightarrow> string \<Rightarrow> error + Listener" where
  "net_Listen bind_err net addr =
     (case bind_err net addr of
        Some e \<Rightarrow> Inl e
      | None \<Rightarrow> Inr \<lparr>network = net, laddr = addr, l_closed = False\<rparr>)"

text \<open>\<^verbatim>\<open>func (srv *Server) ListenAndServe() error\<close>; no listener when \<^verbatim>\<open>net.Listen\<close> fails.\<close>

definition ListenAndServe ::
  "(string \<Rightarrow> string \<Rightarrow> error option) \<Rightarrow> 'f Server \<Rightarrow> accept_round list \<Rightarrow>
   outcome \<times> 'f Server \<times> Listener option \<times> Conn list" where
  "ListenAndServe bind_err srv rounds =
     (let addr = Addr srv;
          srv = (if Proto srv = [] then srv\<lparr>Proto := ''tcp''\<rparr> else srv);
          addr = (if Proto srv = ''unix'' \<and> addr = [] then ''/tmp/redis.sock''
                  else if addr = [] then '':6389''
                  else addr)
      in (case net_Listen bind_err (Proto srv) addr of
            Inl e \<Rightarrow> (Returned (Some e), srv, None, [])
          | Inr l \<Rightarrow>
              (case Serve srv l rounds of
                 (out, srv, l, spawned) \<Rightarrow> (out, srv, Some l, spawned))))"

section \<open>Properties of a connection's trace\<close>

text \<open>
  Request and reply in lockstep: \<open>owed\<close> says that a request has been read whose reply
  is not yet fully written. A read happens only when no reply is owed, a reply is written
  only when one is owed, and a failed write leaves the reply owed.
\<close>

fun lockstep :: "bool \<Rightarrow> event list \<Rightarrow> bool" where
  "lockstep owed [] = True"
| "lockstep owed (Parse (Inr request) # es) = (\<not> owed \<and> lockstep True es)"
| "lockstep owed (Parse (Inl err) # es) = (\<not> owed \<and> lockstep False es)"
| "lockstep owed (WriteTo reply None # es) = (owed \<and> lockstep False es)"
| "lockstep owed (WriteTo reply (Some err) # es) = (owed \<and> lockstep True es)"
| "lockstep owed (Fprintf line fe # es) = lockstep owed es"
| "lockstep owed (Close # es) = lockstep owed es"

text \<open>The requests read from a connection and the replies fully written to it, in order.\<close>

fun requests_read :: "event list \<Rightarrow> Request list" where
  "requests_read [] = []"
| "requests_read (Parse (Inr request) # es) = request # requests_read es"
| "requests_read (e # es) = requests_read es"

fun replies_written :: "event list \<Rightarrow> Reply list" where
  "replies_written [] = []"
| "replies_written (WriteTo reply None # es) = reply # replies_written es"
| "replies_written (e # es) = replies_written es"

text \<open>
  The replies that \<^verbatim>\<open>Apply\<close> gives to a sequence of requests from one client, one after
  the other, up to its first error.
\<close>

fun answers ::
  "('h \<Rightarrow> Request \<Rightarrow> (error + Reply) \<times> 'h) \<Rightarrow> string \<Rightarrow> 'h \<Rightarrow> Request list \<Rightarrow> Reply list" where
  "answers Apply clientAddr h [] = []"
| "answers Apply clientAddr h (request # rest) =
     (case Apply h (request\<lparr>Host := clientAddr\<rparr>) of
        (Inl err, h') \<Rightarrow> []
      | (Inr reply, h') \<Rightarrow> reply # answers Apply clientAddr h' rest)"

definition in_step ::
  "('h \<Rightarrow> Request \<Rightarrow> (error + Reply) \<times> 'h) \<Rightarrow> string \<Rightarrow> 'h \<Rightarrow> event list \<Rightarrow> bool" where
  "in_step Apply a h evs =
     (lockstep False evs \<and>
      length (requests_read evs) \<le> Suc (length (replies_written evs)) \<and>
      replies_written evs =
        take (length (replies_written evs)) (answers Apply a h (requests_read evs)))"

section \<open>Example inputs\<close>

text \<open>
  The handler of the README, with \<^verbatim>\<open>GET(key string) ([]byte, error)\<close> and
  \<^verbatim>\<open>SET(key string, value []byte) error\<close>. In the examples a method's \<^verbatim>\<open>Func\<close> is
  represented by the number of its results, an adapter exists for one or two results,
  and registration stores the adapter under the method's name.
\<close>

definition MyHandler :: "nat Handler" where
  "MyHandler = [\<lparr>Name = ''GET'', Func = 2\<rparr>, \<lparr>Name = ''SET'', Func = 1\<rparr>]"


definition ex_create :: "nat Handler \<Rightarrow> nat \<Rightarrow> error + nat" where
  "ex_create h f = (if 1 \<le> f \<and> f \<le> 2 then Inr f else Inl ''unsupported signature'')"

definition ex_Register :: "'f Server \<Rightarrow> string \<Rightarrow> 'f \<Rightarrow> 'f Server" where
  "ex_Register srv name fn = srv\<lparr>methods := (methods srv)(name \<mapsto> fn)\<rparr>"





definition ex_Config :: "nat Config" where
  "ex_Config = \<lparr>proto = ''tcp'', host = ''127.0.0.1'', port = 6389, handler = Some MyHandler\<rparr>"

definition ex_srv :: "nat Server" where
  "ex_srv = \<lparr>Proto = ''tcp'', Addr = ''127.0.0.1:6389'', MonitorChans = [4, 9],
             methods = [''GET'' \<mapsto> 2, ''SET'' \<mapsto> 1], exitChan = ChanOpen\<rparr>"

definition ex_listener :: Listener where
  "ex_listener = \<lparr>network = ''tcp'', laddr = ''127.0.0.1:6389'', l_closed = False\<rparr>"

definition bind_ok :: "string \<Rightarrow> string \<Rightarrow> error option" where
  "bind_ok net addr = None"

text \<open>
  A command table with one command: the adapter of \<^verbatim>\<open>PING\<close> answers a request without
  arguments and returns an error for one with arguments. The state of the handler counts
  the answers. \<open>ex_Apply\<close> is the dispatch on this table.
\<close>

definition ex_ping :: "nat HandlerFn" where
  "ex_ping h request =
     (if Args request \<noteq> [] then (Inl ''wrong number of arguments'', h)
      else (Inr ''+PONG'', Suc h))"

definition ex_table :: "nat HandlerFn Server" where
  "ex_table = \<lparr>Proto = ''tcp'', Addr = ''127.0.0.1:6389'', MonitorChans = [],
               methods = [''PING'' \<mapsto> ex_ping], exitChan = ChanOpen\<rparr>"

definition ex_error_reply :: "error \<Rightarrow> Reply" where
  "ex_error_reply err = ''-ERR '' @ err @ [CHR 0x0D, CHR 0x0A]"

definition ex_Apply :: "nat \<Rightarrow> Request \<Rightarrow> (error + Reply) \<times> nat" where
  "ex_Apply = srv_Apply ex_error_reply ''-ERR unknown command'' ex_table"

definition ex_conn :: Conn where
  "ex_conn = \<lparr>ctype = OtherConn ''127.0.0.1:50000'', trace = [], closed = False, files = 0\<rparr>"

definition ex_unix_conn :: Conn where
  "ex_unix_conn = \<lparr>ctype = UnixConn (Inr ''unix:/tmp/redis.sock->''), trace = [],
                   closed = False, files = 0\<rparr>"

definition ping :: Request where
  "ping = \<lparr>Command = ''PING'', Args = [], Host = []\<rparr>"

definition ping_x :: Request where
  "ping_x = \<lparr>Command = ''PING'', Args = [''x''], Host = []\<rparr>"

definition ask :: "Request \<Rightarrow> round" where
  "ask request = \<lparr>exit_seen = ChanOpen, parsed = Inr request, write_err = None\<rparr>"

definition read_fails :: "error \<Rightarrow> round" where
  "read_fails err = \<lparr>exit_seen = ChanOpen, parsed = Inl err, write_err = None\<rparr>"

definition after_shutdown :: round where
  "after_shutdown = \<lparr>exit_seen = ChanClosed, parsed = Inr ping, write_err = None\<rparr>"

definition accept_conn :: accept_round where
  "accept_conn = \<lparr>exit_found = ChanOpen, accepted = Inr ex_conn\<rparr>"

definition accept_after_shutdown :: accept_round where
  "accept_after_shutdown = \<lparr>exit_found = ChanClosed, accepted = Inr ex_conn\<rparr>"

section \<open>Construction of the command table\<close>

lemma exported_not_skipped: "exported name \<Longrightarrow> skipped name = Inr False"
  by (auto simp: exported_def skipped_def split: list.splits)

text \<open>
  C2: the test on the first byte never skips an exported operation. For a handler whose
  operations are all exported, the loop of \<^verbatim>\<open>NewServer\<close> does what the loop without
  the test does: it attempts an adapter for every operation in turn.
\<close>

theorem first_char_filter_inert:
  assumes "\<forall>m \<in> set ms. exported (Name m)"
  shows "(\<forall>m \<in> set ms. skipped (Name m) = Inr False) \<and>
         register_methods createHandlerFn Register h ms srv =
         attempt_all createHandlerFn Register h ms srv"
  using assms
  by (induction ms arbitrary: srv) (auto simp: exported_not_skipped split: sum.splits)

text \<open>C2 at the handler of the README.\<close>

theorem first_char_filter_inert_witness:
  "map Name MyHandler = [''GET'', ''SET''] \<and>
   exported ''GET'' \<and> exported ''SET'' \<and>
   skipped ''GET'' = Inr False \<and> skipped ''SET'' = Inr False \<and>
   register_methods ex_create ex_Register MyHandler MyHandler ex_srv =
   attempt_all ex_create ex_Register MyHandler MyHandler ex_srv"
proof -
  have h: "\<forall>m \<in> set MyHandler. exported (Name m)"
    by (simp add: MyHandler_def exported_def)
  from first_char_filter_inert [OF h] h show ?thesis
    by (simp add: MyHandler_def)
qed

lemma NewServer_exitChan:
  "fst (NewServer createHandlerFn Register c) = Inr srv \<Longrightarrow> exitChan srv = ChanOpen"
  by (auto simp: NewServer_def Let_def split: option.splits sum.splits prod.splits)

lemma ex_NewServer:
  "fst (NewServer ex_create ex_Register ex_Config) = Inr (ex_srv\<lparr>MonitorChans := []\<rparr>)"
  by (simp add: NewServer_def ex_Config_def MyHandler_def skipped_def ex_create_def
      ex_Register_def ex_srv_def fmt_d_def digits10.simps)

text \<open>
  C3: on a server that \<^verbatim>\<open>NewServer\<close> returned, the shutdown is not yet seen; the first
  \<^verbatim>\<open>Shutdown\<close> returns and from then on the \<^verbatim>\<open>select\<close> of every loop takes the exit
  case; a second \<^verbatim>\<open>Shutdown\<close> panics.
\<close>

theorem shutdown_once:
  assumes "fst (NewServer createHandlerFn Register c) = Inr srv"
  shows "\<not> recv_ready (exitChan srv) \<and>
         (\<exists>srv'. Shutdown srv = Inr srv' \<and> recv_ready (exitChan srv') \<and>
                 Shutdown srv' = Inl (Panic ''close of closed channel''))"
  using NewServer_exitChan [OF assms] by (simp add: Shutdown_def)

text \<open>C3 at the server built for the handler of the README.\<close>

theorem shutdown_once_witness:
  "fst (NewServer ex_create ex_Register ex_Config) = Inr (ex_srv\<lparr>MonitorChans := []\<rparr>) \<and>
   Shutdown (ex_srv\<lparr>MonitorChans := []\<rparr>) =
     Inr (ex_srv\<lparr>MonitorChans := [], exitChan := ChanClosed\<rparr>) \<and>
   Shutdown (ex_srv\<lparr>MonitorChans := [], exitChan := ChanClosed\<rparr>) =
     Inl (Panic ''close of closed channel'')"
  using shutdown_once [OF ex_NewServer] ex_NewServer
  by (auto simp: Shutdown_def ex_srv_def)





text \<open>
  C9: for a configuration without a handler, \<^verbatim>\<open>NewServer\<close> puts the default handler into
  the configuration and returns a server whose table of methods is empty.
\<close>

theorem default_handler_empty:
  assumes "handler c = None"
  shows "NewServer createHandlerFn Register c =
           (Inr \<lparr>Proto = proto c,
                 Addr = (if proto c = ''unix'' then host c else host c @ '':'' @ fmt_d (port c)),
                 MonitorChans = [], methods = Map.empty, exitChan = ChanOpen\<rparr>,
            c\<lparr>handler := Some NewDefaultHandler\<rparr>)"
  using assms by (simp add: NewServer_def NewDefaultHandler_def)

text \<open>C9 at a configuration for a unix socket that names no handler.\<close>

theorem default_handler_empty_witness:
  "handler \<lparr>proto = ''unix'', host = ''/tmp/redis.sock'', port = 6389, handler = None\<rparr> = None \<and>
   NewServer ex_create ex_Register
     \<lparr>proto = ''unix'', host = ''/tmp/redis.sock'', port = 6389, handler = None\<rparr> =
     (Inr \<lparr>Proto = ''unix'', Addr = ''/tmp/redis.sock'', MonitorChans = [],
           methods = Map.empty, exitChan = ChanOpen\<rparr>,
      \<lparr>proto = ''unix'', host = ''/tmp/redis.sock'', port = 6389, handler = Some []\<rparr>)"
proof -
  have h: "handler \<lparr>proto = ''unix'', host = ''/tmp/redis.sock'', port = 6389,
                    handler = (None :: nat Handler option)\<rparr> = None"
    by simp
  from default_handler_empty [OF h, of ex_create ex_Register] show ?thesis
    by (simp add: NewDefaultHandler_def)
qed

section \<open>The acceptor\<close>

text \<open>
  C8: the listener that \<^verbatim>\<open>ListenAndServe\<close> serves on is bound to the server's
  \<^verbatim>\<open>Addr\<close> when that is not empty; when it is empty, to \<^verbatim>\<open>/tmp/redis.sock\<close> for the
  network \<^verbatim>\<open>unix\<close> and to \<^verbatim>\<open>:6389\<close> for any other network. An empty \<^verbatim>\<open>Proto\<close> is
  the network \<^verbatim>\<open>tcp\<close>.
\<close>

theorem default_bind_address:
  assumes "ListenAndServe bind_err srv rounds = (out, srv', Some l, spawned)"
  shows "network l = (if Proto srv = [] then ''tcp'' else Proto srv) \<and>
         laddr l = (if Addr srv \<noteq> [] then Addr srv
                    else if Proto srv = ''unix'' then ''/tmp/redis.sock''
                    else '':6389'')"
  using assms
  by (auto simp: ListenAndServe_def net_Listen_def Serve_def Let_def
      split: prod.splits outcome.splits sum.splits option.splits if_splits)

lemma ex_ListenAndServe:
  "ListenAndServe bind_ok (ex_srv\<lparr>Proto := p, Addr := a\<rparr>) [accept_after_shutdown] =
     (Returned None,
      ex_srv\<lparr>Proto := (if p = [] then ''tcp'' else p), Addr := a, MonitorChans := []\<rparr>,
      Some \<lparr>network = (if p = [] then ''tcp'' else p),
            laddr = (if (if p = [] then ''tcp'' else p) = ''unix'' \<and> a = [] then ''/tmp/redis.sock''
                     else if a = [] then '':6389'' else a),
            l_closed = True\<rparr>,
      [])"
  by (simp add: ListenAndServe_def net_Listen_def bind_ok_def Serve_def
      accept_after_shutdown_def ex_srv_def)

text \<open>
  C8 at three servers: no address on \<^verbatim>\<open>tcp\<close>, no address on \<^verbatim>\<open>unix\<close>, and a
  configured address.
\<close>

theorem default_bind_address_witness:
  "ListenAndServe bind_ok (ex_srv\<lparr>Proto := [], Addr := []\<rparr>) [accept_after_shutdown] =
     (Returned None, ex_srv\<lparr>Proto := ''tcp'', Addr := [], MonitorChans := []\<rparr>,
      Some \<lparr>network = ''tcp'', laddr = '':6389'', l_closed = True\<rparr>, []) \<and>
   ListenAndServe bind_ok (ex_srv\<lparr>Proto := ''unix'', Addr := []\<rparr>) [accept_after_shutdown] =
     (Returned None, ex_srv\<lparr>Proto := ''unix'', Addr := [], MonitorChans := []\<rparr>,
      Some \<lparr>network = ''unix'', laddr = ''/tmp/redis.sock'', l_closed = True\<rparr>, []) \<and>
   ListenAndServe bind_ok (ex_srv\<lparr>Proto := ''tcp'', Addr := ''0.0.0.0:7000''\<rparr>)
     [accept_after_shutdown] =
     (Returned None, ex_srv\<lparr>Proto := ''tcp'', Addr := ''0.0.0.0:7000'', MonitorChans := []\<rparr>,
      Some \<lparr>network = ''tcp'', laddr = ''0.0.0.0:7000'', l_closed = True\<rparr>, [])"
proof -
  note tcp = ex_ListenAndServe [where p = "[]" and a = "[]"]
  note unix = ex_ListenAndServe [where p = "''unix''" and a = "[]"]
  note given = ex_ListenAndServe [where p = "''tcp''" and a = "''0.0.0.0:7000''"]
  from default_bind_address [OF tcp] default_bind_address [OF unix]
    default_bind_address [OF given] tcp unix given
  show ?thesis by simp
qed

text \<open>
  C10: whatever monitor channels the server holds when \<^verbatim>\<open>Serve\<close> is called, the server
  that \<^verbatim>\<open>Serve\<close> works on holds none, and nothing else of the server is changed. This
  holds while the loop is still running as well as after the return.
\<close>

theorem serve_resets_monitor_chans:
  "fst (snd (Serve srv l rounds)) = srv\<lparr>MonitorChans := []\<rparr> \<and>
   MonitorChans (fst (snd (Serve srv l rounds))) = []"
  by (cases "accept_loop rounds []"; cases "fst (accept_loop rounds [])")
    (simp_all add: Serve_def Let_def)

text \<open>C10 at a server with the two monitor channels 4 and 9, while it accepts.\<close>

theorem serve_resets_monitor_chans_witness:
  "MonitorChans ex_srv = [4, 9] \<and>
   fst (Serve ex_srv ex_listener [accept_conn]) = Running \<and>
   MonitorChans (fst (snd (Serve ex_srv ex_listener [accept_conn]))) = []"
  using serve_resets_monitor_chans [of ex_srv ex_listener "[accept_conn]"]
  by (simp add: ex_srv_def Serve_def accept_conn_def)

section \<open>Sessions\<close>

lemmas ex_defs = ex_Apply_def srv_Apply_def ex_table_def ex_ping_def ex_error_reply_def

lemma serve_loop_append:
  "serve_loop Apply a (pre @ post) st =
     (case serve_loop Apply a pre st of
        (Running, st') \<Rightarrow> serve_loop Apply a post st'
      | (Returned err, st') \<Rightarrow> (Returned err, st'))"
proof (induction pre arbitrary: st)
  case Nil
  then show ?case by (cases st) simp
next
  case (Cons r pre)
  obtain h conn where st: "st = (h, conn)" by (cases st)
  show ?case unfolding st
    by (simp add: Cons.IH Let_def split: sum.splits prod.splits option.splits)
qed

lemma serve_loop_frame:
  "serve_loop Apply a rs (h, c) = (out, h', c') \<Longrightarrow>
     closed c' = closed c \<and> files c' = files c \<and> ctype c' = ctype c"
proof (induction rs arbitrary: h c)
  case Nil
  then show ?case by simp
next
  case (Cons r rs)
  show ?case
  proof (cases "recv_ready (exit_seen r)")
    case True
    with Cons.prems show ?thesis by simp
  next
    case nexit: False
    show ?thesis
    proof (cases "parsed r")
      case (Inl err)
      with nexit Cons.prems show ?thesis by (auto simp: log_event_def)
    next
      case (Inr request)
      obtain res h1 where ap: "Apply h (request\<lparr>Host := a\<rparr>) = (res, h1)"
        by (cases "Apply h (request\<lparr>Host := a\<rparr>)")
      show ?thesis
      proof (cases res)
        case (Inl err)
        with nexit Inr ap Cons.prems show ?thesis by (auto simp: log_event_def)
      next
        case reply: (Inr reply)
        show ?thesis
        proof (cases "write_err r")
          case (Some err)
          with nexit Inr ap reply Cons.prems show ?thesis by (auto simp: log_event_def)
        next
          case None
          let ?c = "log_event (WriteTo reply None) (log_event (Parse (Inr request)) c)"
          from nexit Inr ap reply None Cons.prems
          have "serve_loop Apply a rs (h1, ?c) = (out, h', c')"
            by simp
          from Cons.IH [OF this] show ?thesis by (simp add: log_event_def)
        qed
      qed
    qed
  qed
qed

lemma ex_client_addr:
  "client_addr (snd (0::nat, ex_conn)) = (Inr ''127.0.0.1:50000'', ex_conn)"
  by (simp add: client_addr_def ex_conn_def)

lemma ex_first_ping:
  "serve_loop ex_Apply ''127.0.0.1:50000'' [ask ping] (fst (0::nat, ex_conn), ex_conn) =
     (Running, 1, ex_conn\<lparr>trace := [Parse (Inr ping), WriteTo ''+PONG'' None]\<rparr>)"
  by (simp add: ex_defs ask_def ping_def ex_conn_def log_event_def)

text \<open>
  What holds on every return: \<^verbatim>\<open>Serve\<close> has called \<^verbatim>\<open>l.Close()\<close>, and
  \<^verbatim>\<open>ServeClient\<close> has called \<^verbatim>\<open>conn.Close()\<close> as the last thing done on the
  connection. On a connection that is not a \<^verbatim>\<open>*net.UnixConn\<close> and has no duplicate
  descriptor, the socket is then closed.
\<close>

lemma Close_called_on_every_return:
  "(Serve srv l ars = (Returned e, srv', l', spawned) \<longrightarrow> l_closed l') \<and>
   (ServeClient Apply rs fe st = (Returned e', h', conn') \<longrightarrow>
      closed conn' \<and> last (trace conn') = Close \<and>
      (\<forall>addr. ctype (snd st) = OtherConn addr \<and> files (snd st) = 0 \<longrightarrow>
         connection_closed conn'))"
proof -
  have "l_closed l'" if "Serve srv l ars = (Returned e, srv', l', spawned)"
    using that by (auto simp: Serve_def Let_def split: prod.splits outcome.splits)
  moreover have "closed conn' \<and> last (trace conn') = Close \<and>
      (\<forall>addr. ctype (snd st) = OtherConn addr \<and> files (snd st) = 0 \<longrightarrow>
         connection_closed conn')"
    if run: "ServeClient Apply rs fe st = (Returned e', h', conn')"
  proof (cases "client_addr (snd st)")
    case (Pair res c0)
    show ?thesis
    proof (cases res)
      case (Inl err)
      with Pair run show ?thesis
        by (auto simp: ServeClient_def deferred_def log_event_def client_addr_def
            connection_closed_def split: conn_type.splits sum.splits)
    next
      case (Inr a)
      obtain o1 h1 c1 where loop: "serve_loop Apply a rs (fst st, c0) = (o1, h1, c1)"
        by (cases "serve_loop Apply a rs (fst st, c0)")
      from serve_loop_frame [OF loop] have fr: "files c1 = files c0" by simp
      from Pair Inr have "\<forall>addr. ctype (snd st) = OtherConn addr \<longrightarrow> files c0 = files (snd st)"
        by (auto simp: client_addr_def)
      with Pair Inr loop run fr show ?thesis
        by (cases o1) (auto simp: ServeClient_def deferred_def log_event_def
            connection_closed_def split: option.splits)
    qed
  qed
  ultimately show ?thesis by blast
qed

text \<open>
  C7: on a \<^verbatim>\<open>*net.UnixConn\<close> whose \<^verbatim>\<open>File()\<close> succeeds, whenever \<^verbatim>\<open>ServeClient\<close>
  returns, \<^verbatim>\<open>conn.Close()\<close> has been called, but the file that \<^verbatim>\<open>File()\<close> returned
  is still open: the socket is not closed.
\<close>

theorem unix_conn_left_open:
  assumes "ctype (snd st) = UnixConn (Inr name)"
    and "ServeClient Apply rounds fe st = (Returned e, h', conn')"
  shows "closed conn' \<and> files conn' = Suc (files (snd st)) \<and> \<not> connection_closed conn'"
proof -
  from assms(1) have addr:
    "client_addr (snd st) = (Inr name, (snd st)\<lparr>files := Suc (files (snd st))\<rparr>)"
    by (simp add: client_addr_def)
  obtain o1 h1 c1 where loop:
    "serve_loop Apply name rounds (fst st, (snd st)\<lparr>files := Suc (files (snd st))\<rparr>) = (o1, h1, c1)"
    by (cases "serve_loop Apply name rounds (fst st, (snd st)\<lparr>files := Suc (files (snd st))\<rparr>)")
  from serve_loop_frame [OF loop] have "files c1 = Suc (files (snd st))" by simp
  with addr loop assms(2) show ?thesis
    by (cases o1) (auto simp: ServeClient_def deferred_def log_event_def
        connection_closed_def split: option.splits)
qed

text \<open>
  C7 at a session on a unix socket whose client has gone away: the read fails with
  \<^verbatim>\<open>EOF\<close>, the session returns, and one file is left open on the socket.
\<close>

theorem unix_conn_left_open_witness:
  "ctype (snd (0::nat, ex_unix_conn)) = UnixConn (Inr ''unix:/tmp/redis.sock->'') \<and>
   ServeClient ex_Apply [read_fails ''EOF''] None (0, ex_unix_conn) =
     (Returned (Some ''EOF''), 0,
      ex_unix_conn\<lparr>trace := [Parse (Inl ''EOF''), Fprintf ''-EOF\<newline>'' None, Close],
                    closed := True, files := 1\<rparr>) \<and>
   \<not> connection_closed
       (ex_unix_conn\<lparr>trace := [Parse (Inl ''EOF''), Fprintf ''-EOF\<newline>'' None, Close],
                     closed := True, files := 1\<rparr>)"
proof -
  have unix: "ctype (snd (0::nat, ex_unix_conn)) = UnixConn (Inr ''unix:/tmp/redis.sock->'')"
    by (simp add: ex_unix_conn_def)
  have run: "ServeClient ex_Apply [read_fails ''EOF''] None (0, ex_unix_conn) =
     (Returned (Some ''EOF''), 0,
      ex_unix_conn\<lparr>trace := [Parse (Inl ''EOF''), Fprintf ''-EOF\<newline>'' None, Close],
                    closed := True, files := 1\<rparr>)"
    by (simp add: ServeClient_def client_addr_def ex_unix_conn_def read_fails_def
        deferred_def log_event_def)
  from unix_conn_left_open [OF unix run] unix run show ?thesis by simp
qed

lemma lockstep_deferred:
  "lockstep b (es @ [Close]) = lockstep b es"
  "lockstep b (es @ [Fprintf line fe, Close]) = lockstep b es"
  by (induction b es rule: lockstep.induct) simp_all

lemma requests_read_append:
  "requests_read (es @ es') = requests_read es @ requests_read es'"
  by (induction es rule: requests_read.induct) simp_all

lemma replies_written_append:
  "replies_written (es @ es') = replies_written es @ replies_written es'"
  by (induction es rule: replies_written.induct) simp_all

lemma in_step_deferred:
  "in_step Apply a h (es @ [Close]) = in_step Apply a h es"
  "in_step Apply a h (es @ [Fprintf line fe, Close]) = in_step Apply a h es"
  by (simp_all add: in_step_def lockstep_deferred requests_read_append replies_written_append)

lemma serve_loop_in_step:
  "serve_loop Apply a rs (h, c) = (out, h', c') \<Longrightarrow>
     \<exists>evs. trace c' = trace c @ evs \<and> in_step Apply a h evs"
proof (induction rs arbitrary: h c)
  case Nil
  then have "trace c' = trace c @ [] \<and> in_step Apply a h []"
    by (simp add: in_step_def)
  then show ?case by blast
next
  case (Cons r rs)
  show ?case
  proof (cases "recv_ready (exit_seen r)")
    case True
    with Cons.prems have "trace c' = trace c @ [] \<and> in_step Apply a h []"
      by (simp add: in_step_def)
    then show ?thesis by blast
  next
    case nexit: False
    show ?thesis
    proof (cases "parsed r")
      case (Inl err)
      with nexit Cons.prems
      have "trace c' = trace c @ [Parse (Inl err)] \<and> in_step Apply a h [Parse (Inl err)]"
        by (auto simp: in_step_def log_event_def)
      then show ?thesis by blast
    next
      case (Inr request)
      obtain res h1 where ap: "Apply h (request\<lparr>Host := a\<rparr>) = (res, h1)"
        by (cases "Apply h (request\<lparr>Host := a\<rparr>)")
      show ?thesis
      proof (cases res)
        case (Inl err)
        with nexit Inr ap Cons.prems
        have "trace c' = trace c @ [Parse (Inr request)] \<and>
              in_step Apply a h [Parse (Inr request)]"
          by (auto simp: in_step_def log_event_def)
        then show ?thesis by blast
      next
        case reply: (Inr reply)
        show ?thesis
        proof (cases "write_err r")
          case (Some err)
          with nexit Inr ap reply Cons.prems
          have "trace c' = trace c @ [Parse (Inr request), WriteTo reply (Some err)] \<and>
                in_step Apply a h [Parse (Inr request), WriteTo reply (Some err)]"
            by (auto simp: in_step_def log_event_def)
          then show ?thesis by blast
        next
          case None
          let ?c = "log_event (WriteTo reply None) (log_event (Parse (Inr request)) c)"
          from nexit Inr ap reply None Cons.prems
          have "serve_loop Apply a rs (h1, ?c) = (out, h', c')"
            by simp
          from Cons.IH [OF this] obtain evs where
            evs: "trace c' = trace ?c @ evs" "in_step Apply a h1 evs"
            by blast
          from evs(1) have "trace c' = trace c @ (Parse (Inr request) # WriteTo reply None # evs)"
            by (simp add: log_event_def)
          moreover from evs(2) ap reply
          have "in_step Apply a h (Parse (Inr request) # WriteTo reply None # evs)"
            by (simp add: in_step_def)
          ultimately show ?thesis by blast
        qed
      qed
    qed
  qed
qed

lemma ServeClient_in_step:
  assumes "trace c = []"
    and "client_addr c = (Inr a, c0)"
    and "ServeClient Apply rounds fe (h, c) = (out, h', conn')"
  shows "in_step Apply a h (trace conn')"
proof -
  obtain o1 h1 c1 where loop: "serve_loop Apply a rounds (h, c0) = (o1, h1, c1)"
    by (cases "serve_loop Apply a rounds (h, c0)")
  from assms(1,2) have "trace c0 = []"
    by (auto simp: client_addr_def split: conn_type.splits sum.splits)
  with serve_loop_in_step [OF loop]
  have evs: "in_step Apply a h (trace c1)"
    by auto
  show ?thesis
  proof (cases o1)
    case Running
    with assms(2,3) loop evs show ?thesis
      by (auto simp: ServeClient_def)
  next
    case (Returned err)
    with assms(2,3) loop evs show ?thesis
      by (cases err) (auto simp: ServeClient_def deferred_def log_event_def in_step_deferred)
  qed
qed

text \<open>
  C6: on a fresh connection, whatever its environment does and however long the session
  is observed, the session reads a request only when no reply is owed and writes a reply
  only when one is owed; the requests read are at most one more than the replies fully
  written; and the replies written are, in order, the answers of \<^verbatim>\<open>Apply\<close> to the
  requests read.
\<close>

theorem no_pipelining:
  assumes "trace (snd st) = []"
    and "ServeClient Apply rounds fe st = (out, h', conn')"
  shows "lockstep False (trace conn') \<and>
         length (requests_read (trace conn')) \<le> Suc (length (replies_written (trace conn'))) \<and>
         (\<forall>a. fst (client_addr (snd st)) = Inr a \<longrightarrow>
            replies_written (trace conn') =
              take (length (replies_written (trace conn')))
                (answers Apply a (fst st) (requests_read (trace conn'))))"
proof (cases "client_addr (snd st)")
  case (Pair res c0)
  obtain h c where st: "st = (h, c)" by (cases st)
  show ?thesis
  proof (cases res)
    case (Inl err)
    with Pair st have "c0 = c"
      by (auto simp: client_addr_def split: conn_type.splits sum.splits)
    with Pair Inl assms st
    have "trace conn' = [Fprintf (CHR ''-'' # err @ [CHR 0x0A]) fe, Close]"
      by (auto simp: ServeClient_def deferred_def log_event_def)
    with Pair Inl show ?thesis by simp
  next
    case (Inr a)
    from ServeClient_in_step [of c a c0 Apply rounds fe h out h' conn'] assms Pair Inr st
    have "in_step Apply a h (trace conn')" by simp
    with Pair Inr st show ?thesis by (simp add: in_step_def)
  qed
qed

text \<open>
  C6 at a session that answers two requests and then sees the shutdown: each reply is
  written before the next request is read.
\<close>

theorem no_pipelining_witness:
  "trace (snd (0::nat, ex_conn)) = [] \<and>
   ServeClient ex_Apply [ask ping, ask ping, after_shutdown] None (0, ex_conn) =
     (Returned None, 2,
      ex_conn\<lparr>trace := [Parse (Inr ping), WriteTo ''+PONG'' None,
                          Parse (Inr ping), WriteTo ''+PONG'' None, Close],
               closed := True\<rparr>) \<and>
   lockstep False [Parse (Inr ping), WriteTo ''+PONG'' None,
                   Parse (Inr ping), WriteTo ''+PONG'' None, Close] \<and>
   replies_written [Parse (Inr ping), WriteTo ''+PONG'' None,
                    Parse (Inr ping), WriteTo ''+PONG'' None, Close] =
     take 2 (answers ex_Apply ''127.0.0.1:50000'' 0 [ping, ping])"
proof -
  have fresh: "trace (snd (0::nat, ex_conn)) = []"
    by (simp add: ex_conn_def)
  have run: "ServeClient ex_Apply [ask ping, ask ping, after_shutdown] None (0, ex_conn) =
     (Returned None, 2,
      ex_conn\<lparr>trace := [Parse (Inr ping), WriteTo ''+PONG'' None,
                          Parse (Inr ping), WriteTo ''+PONG'' None, Close],
               closed := True\<rparr>)"
    by (simp add: ServeClient_def client_addr_def ex_defs ex_conn_def ask_def
        after_shutdown_def ping_def deferred_def log_event_def)
  from no_pipelining [OF fresh run] fresh run show ?thesis
    by (simp add: ex_conn_def client_addr_def ex_defs ping_def)
qed

text \<open>
  C1: when the adapter of a found command returns an error, at whatever iteration, the
  dispatch gives the encoded error reply and the session writes it. If the write
  succeeds, the session goes on with the rounds that follow, it has not returned, and
  \<^verbatim>\<open>conn.Close()\<close> has not been called. If the write fails, the session ends with the
  error of the write.
\<close>

theorem dispatch_error_reply_continues:
  assumes addr: "client_addr (snd st) = (Inr a, c0)"
    and pre: "serve_loop (srv_Apply error_reply unknown srv) a pre (fst st, c0) = (Running, h1, c1)"
    and nexit: "\<not> recv_ready (exit_seen r)"
    and parsed: "parsed r = Inr request"
    and found: "methods srv (Command request) = Some handlerFn"
    and err: "handlerFn h1 (request\<lparr>Host := a\<rparr>) = (Inl err, h2)"
  shows "(write_err r = None \<longrightarrow>
            serve_loop (srv_Apply error_reply unknown srv) a (pre @ r # rest) (fst st, c0) =
              serve_loop (srv_Apply error_reply unknown srv) a rest
                (h2, c1\<lparr>trace := trace c1 @
                           [Parse (Inr request), WriteTo (error_reply err) None]\<rparr>) \<and>
            ServeClient (srv_Apply error_reply unknown srv) (pre @ [r]) fe st =
              (Running, h2,
               c1\<lparr>trace := trace c1 @ [Parse (Inr request), WriteTo (error_reply err) None]\<rparr>) \<and>
            closed c1 = closed (snd st)) \<and>
         (\<forall>werr. write_err r = Some werr \<longrightarrow>
            ServeClient (srv_Apply error_reply unknown srv) (pre @ r # rest) fe st =
              (Returned (Some werr), h2,
               c1\<lparr>trace := trace c1 @
                    [Parse (Inr request), WriteTo (error_reply err) (Some werr),
                     Fprintf (CHR ''-'' # werr @ [CHR 0x0A]) fe, Close],
                  closed := True\<rparr>))"
proof -
  have ap: "srv_Apply error_reply unknown srv h1 (request\<lparr>Host := a\<rparr>) =
              (Inr (error_reply err), h2)"
    using found err by (simp add: srv_Apply_def)
  from serve_loop_frame [OF pre] addr have "closed c1 = closed (snd st)"
    by (auto simp: client_addr_def split: conn_type.splits sum.splits)
  with addr pre nexit parsed ap show ?thesis
    by (simp add: ServeClient_def serve_loop_append deferred_def log_event_def)
qed

text \<open>
  C1 at a session whose second request has one argument too many: the error reply is
  written and the third request is read and answered.
\<close>

theorem dispatch_error_reply_continues_witness:
  "client_addr (snd (0::nat, ex_conn)) = (Inr ''127.0.0.1:50000'', ex_conn) \<and>
   serve_loop ex_Apply ''127.0.0.1:50000'' [ask ping] (fst (0::nat, ex_conn), ex_conn) =
     (Running, 1, ex_conn\<lparr>trace := [Parse (Inr ping), WriteTo ''+PONG'' None]\<rparr>) \<and>
   \<not> recv_ready (exit_seen (ask ping_x)) \<and>
   parsed (ask ping_x) = Inr ping_x \<and>
   write_err (ask ping_x) = None \<and>
   methods ex_table (Command ping_x) = Some ex_ping \<and>
   ex_ping 1 (ping_x\<lparr>Host := ''127.0.0.1:50000''\<rparr>) = (Inl ''wrong number of arguments'', 1) \<and>
   ServeClient ex_Apply ([ask ping] @ [ask ping_x]) None (0, ex_conn) =
     (Running, 1,
      ex_conn\<lparr>trace := [Parse (Inr ping), WriteTo ''+PONG'' None, Parse (Inr ping_x),
                          WriteTo (ex_error_reply ''wrong number of arguments'') None]\<rparr>) \<and>
   serve_loop ex_Apply ''127.0.0.1:50000'' ([ask ping] @ ask ping_x # [ask ping])
       (fst (0::nat, ex_conn), ex_conn) =
     (Running, 2,
      ex_conn\<lparr>trace := [Parse (Inr ping), WriteTo ''+PONG'' None, Parse (Inr ping_x),
                          WriteTo (ex_error_reply ''wrong number of arguments'') None,
                          Parse (Inr ping), WriteTo ''+PONG'' None]\<rparr>) \<and>
   closed ex_conn = False"
proof -
  note pre = ex_first_ping [unfolded ex_Apply_def]
  have r: "\<not> recv_ready (exit_seen (ask ping_x))" "parsed (ask ping_x) = Inr ping_x"
    and w: "write_err (ask ping_x) = None"
    by (simp_all add: ask_def)
  have found: "methods ex_table (Command ping_x) = Some ex_ping"
    by (simp add: ex_table_def ping_x_def)
  have err: "ex_ping 1 (ping_x\<lparr>Host := ''127.0.0.1:50000''\<rparr>) =
               (Inl ''wrong number of arguments'', 1)"
    by (simp add: ex_ping_def ping_x_def)
  have "serve_loop ex_Apply ''127.0.0.1:50000'' [ask ping]
          (1, ex_conn\<lparr>trace := [Parse (Inr ping), WriteTo ''+PONG'' None, Parse (Inr ping_x),
                          WriteTo (ex_error_reply ''wrong number of arguments'') None]\<rparr>) =
        (Running, 2,
         ex_conn\<lparr>trace := [Parse (Inr ping), WriteTo ''+PONG'' None, Parse (Inr ping_x),
                          WriteTo (ex_error_reply ''wrong number of arguments'') None,
                          Parse (Inr ping), WriteTo ''+PONG'' None]\<rparr>)"
    by (simp add: ex_defs ask_def ping_def ex_conn_def log_event_def)
  with dispatch_error_reply_continues [OF ex_client_addr pre r found err,
      where rest = "[ask ping]" and fe = None]
    ex_client_addr ex_first_ping r w found err
  show ?thesis by (simp add: ex_Apply_def ex_conn_def)
qed

text \<open>
  C4, at a concrete session: the second read fails with \<^verbatim>\<open>EOF\<close>, and before the
  connection is closed the line \<^verbatim>\<open>-EOF\n\<close> is written to it, here with success.
\<close>

theorem read_failure_counterexample:
  "ServeClient ex_Apply [ask ping, read_fails ''EOF''] None (0, ex_conn) =
     (Returned (Some ''EOF''), 1,
      \<lparr>ctype = OtherConn ''127.0.0.1:50000'',
       trace = [Parse (Inr ping), WriteTo ''+PONG'' None, Parse (Inl ''EOF''),
                Fprintf ''-EOF\<newline>'' None, Close],
       closed = True, files = 0\<rparr>)"
  by (simp add: ServeClient_def client_addr_def ex_defs ex_conn_def ask_def read_fails_def
      ping_def deferred_def log_event_def)

text \<open>
  C4 as amended: when \<^verbatim>\<open>parseRequest\<close> fails, at whatever iteration, the session
  ends. \<^verbatim>\<open>ServeClient\<close> returns the error of the read, nothing is dispatched, and after
  the failed read the only things done on the connection are the write of the one line
  \<^verbatim>\<open>-<error>\n\<close> and the close.
\<close>

theorem read_failure_ends_session:
  assumes "client_addr (snd st) = (Inr a, c0)"
    and "serve_loop Apply a pre (fst st, c0) = (Running, h1, c1)"
    and "\<not> recv_ready (exit_seen r)"
    and "parsed r = Inl err"
  shows "ServeClient Apply (pre @ r # rest) fe st =
           (Returned (Some err), h1,
            c1\<lparr>trace := trace c1 @
                  [Parse (Inl err), Fprintf (CHR ''-'' # err @ [CHR 0x0A]) fe, Close],
               closed := True\<rparr>)"
  using assms
  by (simp add: ServeClient_def serve_loop_append deferred_def log_event_def)

text \<open>C4 as amended, at a session whose second read meets a malformed request.\<close>

theorem read_failure_ends_session_witness:
  "client_addr (snd (0::nat, ex_conn)) = (Inr ''127.0.0.1:50000'', ex_conn) \<and>
   serve_loop ex_Apply ''127.0.0.1:50000'' [ask ping] (fst (0::nat, ex_conn), ex_conn) =
     (Running, 1, ex_conn\<lparr>trace := [Parse (Inr ping), WriteTo ''+PONG'' None]\<rparr>) \<and>
   \<not> recv_ready (exit_seen (read_fails ''malformed request'')) \<and>
   parsed (read_fails ''malformed request'') = Inl ''malformed request'' \<and>
   ServeClient ex_Apply ([ask ping] @ read_fails ''malformed request'' # [ask ping]) None
     (0, ex_conn) =
     (Returned (Some ''malformed request''), 1,
      ex_conn\<lparr>trace := [Parse (Inr ping), WriteTo ''+PONG'' None,
                          Parse (Inl ''malformed request''),
                          Fprintf ''-malformed request\<newline>'' None, Close],
               closed := True\<rparr>)"
proof -
  have r: "\<not> recv_ready (exit_seen (read_fails ''malformed request''))"
    "parsed (read_fails ''malformed request'') = Inl ''malformed request''"
    by (simp_all add: read_fails_def)
  from read_failure_ends_session [OF ex_client_addr ex_first_ping r] ex_client_addr
    ex_first_ping r
  show ?thesis by simp
qed

end
